theory Spec2Isabelle
  imports Main "HOL-Library.Sublist"
begin

section \<open>The rye processor of the pep621 manager\<close>

text \<open>
  A shallow embedding of \<^verbatim>\<open>lib/modules/manager/pep621/processors/rye.ts\<close>:
  the command classifier \<^verbatim>\<open>generateCMDs\<close> with its helper
  \<^verbatim>\<open>addPackageToCMDRecord\<close>, and the method \<^verbatim>\<open>RyeProcessor.updateArtifacts\<close>.
  Calls of the logger have no influence on any result and are left out. The method
  \<^verbatim>\<open>process\<close> is not modelled: no property below is about it.
\<close>

subsection \<open>JavaScript values and helpers\<close>

text \<open>
  A thrown value, read only through its \<^verbatim>\<open>message\<close> property
  (\<^verbatim>\<open>err.message\<close>, lines 158, 166 and 172).
\<close>

datatype js_error = JsError (message: string)

text \<open>
  \<^verbatim>\<open>undefined.split(...)\<close> throws a TypeError; the text of its message is the one
  of V8. Nothing proved below depends on the text.
\<close>

definition undefinedSplitError :: js_error where
  "undefinedSplitError =
     JsError (''Cannot read properties of undefined (reading '' @ [CHR 0x27] @ ''split''
              @ [CHR 0x27] @ '')'')"

text \<open>
  \<^verbatim>\<open>String.prototype.split\<close> with a separator of one character: the pieces between
  the occurrences of the separator, never an empty array (so the case of an empty list
  in the second equation is never taken).
\<close>

fun js_split :: "char \<Rightarrow> string \<Rightarrow> string list" where
  "js_split c [] = [[]]"
| "js_split c (x # xs) =
     (if x = c then [] # js_split c xs
      else (case js_split c xs of
              [] \<Rightarrow> [[x]]
            | p # ps \<Rightarrow> (x # p) # ps))"

text \<open>
  Reading index \<open>i\<close> of an array: \<^verbatim>\<open>undefined\<close> (here \<open>None\<close>) out of range.
\<close>

definition js_index :: "'a list \<Rightarrow> nat \<Rightarrow> 'a option" where
  "js_index xs i = (if i < length xs then Some (xs ! i) else None)"

text \<open>
  \<^verbatim>\<open>Array.prototype.join\<close>: an element that is \<^verbatim>\<open>undefined\<close> is written as the
  empty string.
\<close>

definition js_str :: "string option \<Rightarrow> string" where
  "js_str v = (case v of None \<Rightarrow> [] | Some s \<Rightarrow> s)"

fun js_join :: "string \<Rightarrow> string option list \<Rightarrow> string" where
  "js_join sep [] = []"
| "js_join sep [x] = js_str x"
| "js_join sep (x # y # ys) = js_str x @ sep @ js_join sep (y # ys)"

subsection \<open>Data\<close>

text \<open>
  The fields of \<^verbatim>\<open>Upgrade\<close> that the processor reads; each may be
  \<^verbatim>\<open>undefined\<close>.
\<close>

record Upgrade =
  depType :: "string option"
  depName :: "string option"
  packageName :: "string option"

text \<open>
  The table \<^verbatim>\<open>depTypes\<close> is imported from \<^verbatim>\<open>../utils\<close>; its entries are
  parameters of the model. The three entries are the ones named in \<^verbatim>\<open>rye.ts\<close>
  and \<^verbatim>\<open>rye.spec.ts\<close>.
\<close>

record DepTypes =
  dependencies :: string
  optionalDependencies :: string
  ryeDevDependencies :: string

definition ryeUpdateLockCMD :: string where
  "ryeUpdateLockCMD = ''rye lock''"

definition ryeUpdatePackageCMD :: string where
  "ryeUpdatePackageCMD = ''rye lock --update''"

subsection \<open>The classifier\<close>

text \<open>
  \<^verbatim>\<open>packagesByCMD : Record<string, string[]>\<close> is an object whose keys are
  enumerated by \<^verbatim>\<open>for ... in\<close> in the order of their creation: an association
  list in that order. An entry of a package list may be \<^verbatim>\<open>undefined\<close>
  (the non-null assertions \<^verbatim>\<open>!\<close> check nothing at run time).
\<close>

type_synonym CMDRecord = "(string \<times> string option list) list"

definition addPackageToCMDRecord :: "CMDRecord \<Rightarrow> string \<Rightarrow> string option \<Rightarrow> CMDRecord" where
  "addPackageToCMDRecord packagesByCMD commandPrefix packageName' =
     (let created =
            (if map_of packagesByCMD commandPrefix = None
             then packagesByCMD @ [(commandPrefix, [])]
             else packagesByCMD)
      in map (\<lambda>(k, v). if k = commandPrefix then (k, v @ [packageName']) else (k, v)) created)"

text \<open>
  The first loop of \<^verbatim>\<open>generateCMDs\<close> (lines 183 to 198). In the branch of
  \<^verbatim>\<open>depTypes.ryeDevDependencies\<close>, \<^verbatim>\<open>dep.depName!.split('/')\<close> throws when
  \<^verbatim>\<open>depName\<close> is \<^verbatim>\<open>undefined\<close>, and \<^verbatim>\<open>name\<close> is the element of index 1.
\<close>

fun collectPackages :: "DepTypes \<Rightarrow> Upgrade list \<Rightarrow> CMDRecord \<Rightarrow> js_error + CMDRecord" where
  "collectPackages dt [] packagesByCMD = Inr packagesByCMD"
| "collectPackages dt (dep # deps) packagesByCMD =
     (if depType dep = Some (ryeDevDependencies dt) then
        (case depName dep of
           None \<Rightarrow> Inl undefinedSplitError
         | Some n \<Rightarrow>
             collectPackages dt deps
               (addPackageToCMDRecord packagesByCMD ryeUpdatePackageCMD
                  (js_index (js_split CHR ''/'' n) 1)))
      else
        collectPackages dt deps
          (addPackageToCMDRecord packagesByCMD ryeUpdatePackageCMD (packageName dep)))"

text \<open>The second loop (lines 200 to 204): one command for each key.\<close>

definition emitCMDs :: "CMDRecord \<Rightarrow> string list" where
  "emitCMDs packagesByCMD =
     map (\<lambda>(commandPrefix, packages). commandPrefix @ '' '' @ js_join '' '' packages)
       packagesByCMD"

definition generateCMDs :: "DepTypes \<Rightarrow> Upgrade list \<Rightarrow> js_error + string list" where
  "generateCMDs dt updatedDeps =
     (case collectPackages dt updatedDeps [] of
        Inl err \<Rightarrow> Inl err
      | Inr packagesByCMD \<Rightarrow> Inr (emitCMDs packagesByCMD))"

subsection \<open>The collaborators of \<^verbatim>\<open>updateArtifacts\<close>\<close>

record ToolConstraint =
  toolName :: string
  constraint :: "string option"

record ExecOptions =
  cwdFile :: string
  docker :: unit
  toolConstraints :: "ToolConstraint list"

text \<open>The two keys of \<^verbatim>\<open>config.constraints\<close> that are read.\<close>

record Constraints =
  python :: "string option"
  rye :: "string option"

record UpdateArtifactsConfig =
  updateType :: "string option"
  constraints :: "Constraints option"

record UpdateArtifact =
  packageFileName :: string
  updatedDeps :: "Upgrade list"
  newPackageFileContent :: string
  config :: UpdateArtifactsConfig

record ProjectSection =
  requires_python :: "string option"

record PyProject =
  project :: "ProjectSection option"

text \<open>
  An element of the result: \<^verbatim>\<open>{ file: { type: 'addition', path, contents } }\<close> or
  \<^verbatim>\<open>{ artifactError: { lockFile, stderr } }\<close>. The contents are what
  \<^verbatim>\<open>readLocalFile\<close> gave, \<^verbatim>\<open>null\<close> included.
\<close>

datatype UpdateArtifactsResult =
    FileAddition (path: string) (contents: "string option")
  | ArtifactError (lockFile: string) (stderr: string)

text \<open>
  What \<^verbatim>\<open>updateArtifacts\<close> imports and does not define: the two functions of
  \<^verbatim>\<open>util/fs\<close>, \<^verbatim>\<open>exec\<close> of \<^verbatim>\<open>util/exec\<close>, the constant
  \<^verbatim>\<open>TEMPORARY_ERROR\<close> and the table \<^verbatim>\<open>depTypes\<close>. They are parameters of
  the model. Reading a file and running commands act on a world \<open>'w\<close> (the file
  system and all that the commands can touch); each gives back the new world, and either
  a value or the error it throws. \<^verbatim>\<open>readLocalFile\<close> gives \<open>None\<close> for
  \<^verbatim>\<open>null\<close>, a file that is not there.
\<close>

record 'w Collaborators =
  getSiblingFileName :: "string \<Rightarrow> string \<Rightarrow> string"
  readLocalFile :: "string \<Rightarrow> 'w \<Rightarrow> (js_error + string option) \<times> 'w"
  exec :: "string list \<Rightarrow> ExecOptions \<Rightarrow> 'w \<Rightarrow> (js_error + unit) \<times> 'w"
  TEMPORARY_ERROR :: string
  depTypes :: DepTypes

text \<open>
  The state of a run: the world, and the calls of \<^verbatim>\<open>exec\<close> made so far, each with
  its commands and options, in order (what \<^verbatim>\<open>mockExecAll\<close> records in the tests).
\<close>

record 'w Run =
  world :: 'w
  execSnapshots :: "(string list \<times> ExecOptions) list"

type_synonym ('a, 'w) action = "'w Run \<Rightarrow> (js_error + 'a) \<times> 'w Run"

definition awaitRead :: "'w Collaborators \<Rightarrow> string \<Rightarrow> (string option, 'w) action" where
  "awaitRead C fileName s =
     (case readLocalFile C fileName (world s) of (r, w) \<Rightarrow> (r, s\<lparr>world := w\<rparr>))"

definition awaitExec :: "'w Collaborators \<Rightarrow> string list \<Rightarrow> ExecOptions \<Rightarrow> (unit, 'w) action" where
  "awaitExec C cmds opts s =
     (case exec C cmds opts (world s) of
        (r, w) \<Rightarrow> (r, \<lparr>world = w, execSnapshots = execSnapshots s @ [(cmds, opts)]\<rparr>))"

text \<open>Sequencing: a statement that throws ends the \<^verbatim>\<open>try\<close> block.\<close>

definition andThen :: "('a, 'w) action \<Rightarrow> ('a \<Rightarrow> ('b, 'w) action) \<Rightarrow> ('b, 'w) action" where
  "andThen m f s = (case m s of (Inl err, s') \<Rightarrow> (Inl err, s') | (Inr a, s') \<Rightarrow> f a s')"

definition returns :: "'a \<Rightarrow> ('a, 'w) action" where
  "returns a s = (Inr a, s)"

definition evaluated :: "js_error + 'a \<Rightarrow> ('a, 'w) action" where
  "evaluated r s = (r, s)"

subsection \<open>\<^verbatim>\<open>updateArtifacts\<close>\<close>

definition lockFileNameOf :: "'w Collaborators \<Rightarrow> UpdateArtifact \<Rightarrow> string" where
  "lockFileNameOf C updateArtifact =
     getSiblingFileName C (packageFileName updateArtifact) ''requirements.lock''"

definition devLockFileNameOf :: "'w Collaborators \<Rightarrow> UpdateArtifact \<Rightarrow> string" where
  "devLockFileNameOf C updateArtifact =
     getSiblingFileName C (packageFileName updateArtifact) ''requirements-dev.lock''"

definition isLockFileMaintenance :: "UpdateArtifact \<Rightarrow> bool" where
  "isLockFileMaintenance updateArtifact =
     (updateType (config updateArtifact) = Some ''lockFileMaintenance'')"

text \<open>Lines 97 to 111.\<close>

definition execOptionsOf :: "UpdateArtifact \<Rightarrow> PyProject \<Rightarrow> ExecOptions" where
  "execOptionsOf updateArtifact proj =
     (let pythonConstraint =
            \<lparr>toolName = ''python'',
             constraint =
               (case (case constraints (config updateArtifact) of
                        None \<Rightarrow> None
                      | Some c \<Rightarrow> python c) of
                  Some v \<Rightarrow> Some v
                | None \<Rightarrow> (case project proj of None \<Rightarrow> None | Some p \<Rightarrow> requires_python p))\<rparr>;
          ryeConstraint =
            \<lparr>toolName = ''rye'',
             constraint =
               (case constraints (config updateArtifact) of None \<Rightarrow> None | Some c \<Rightarrow> rye c)\<rparr>
      in \<lparr>cwdFile = packageFileName updateArtifact, docker = (),
          toolConstraints = [pythonConstraint, ryeConstraint]\<rparr>)"

text \<open>Lines 115 to 120: the commands handed to \<^verbatim>\<open>exec\<close>.\<close>

definition commandSet :: "DepTypes \<Rightarrow> UpdateArtifact \<Rightarrow> js_error + string list" where
  "commandSet dt updateArtifact =
     (if isLockFileMaintenance updateArtifact then Inr [ryeUpdateLockCMD]
      else generateCMDs dt (updatedDeps updateArtifact))"

text \<open>Lines 123 to 155, once both files are read again.\<close>

definition fileChangesOf ::
  "string \<Rightarrow> string \<Rightarrow> string option \<Rightarrow> string option \<Rightarrow> string option \<Rightarrow> string option
   \<Rightarrow> UpdateArtifactsResult list" where
  "fileChangesOf lockFileName devLockFileName existingLockFileContent
       existingDevLockFileContent newLockContent newDevLockContent =
     (if existingLockFileContent \<noteq> newLockContent
      then [FileAddition lockFileName newLockContent] else [])
     @ (if existingDevLockFileContent \<noteq> newDevLockContent
        then [FileAddition devLockFileName newDevLockContent] else [])"

text \<open>The body of the \<^verbatim>\<open>try\<close> block, lines 75 to 155.\<close>

definition updateArtifactsTry ::
  "'w Collaborators \<Rightarrow> UpdateArtifact \<Rightarrow> PyProject
   \<Rightarrow> (UpdateArtifactsResult list option, 'w) action" where
  "updateArtifactsTry C updateArtifact proj =
     andThen (awaitRead C (lockFileNameOf C updateArtifact)) (\<lambda>existingLockFileContent.
     andThen (awaitRead C (devLockFileNameOf C updateArtifact)) (\<lambda>existingDevLockFileContent.
       if existingLockFileContent = None \<and> existingDevLockFileContent = None
       then returns None
       else
         andThen (evaluated (commandSet (depTypes C) updateArtifact)) (\<lambda>cmds.
         andThen (awaitExec C cmds (execOptionsOf updateArtifact proj)) (\<lambda>_.
         andThen (awaitRead C (lockFileNameOf C updateArtifact)) (\<lambda>newLockContent.
         andThen (awaitRead C (devLockFileNameOf C updateArtifact)) (\<lambda>newDevLockContent.
           let fileChanges =
                 fileChangesOf (lockFileNameOf C updateArtifact) (devLockFileNameOf C updateArtifact)
                   existingLockFileContent existingDevLockFileContent
                   newLockContent newDevLockContent
           in returns (if fileChanges = [] then None else Some fileChanges)))))))"

text \<open>
  The method: the \<^verbatim>\<open>catch\<close> clause (lines 156 to 176) throws the error again when
  its message is \<^verbatim>\<open>TEMPORARY_ERROR\<close>, and otherwise returns two error records.
  \<open>Inl\<close> is a rejected promise, \<open>Inr None\<close> the result \<^verbatim>\<open>null\<close>.
\<close>

definition updateArtifacts ::
  "'w Collaborators \<Rightarrow> UpdateArtifact \<Rightarrow> PyProject
   \<Rightarrow> (UpdateArtifactsResult list option, 'w) action" where
  "updateArtifacts C updateArtifact proj s =
     (case updateArtifactsTry C updateArtifact proj s of
        (Inr result, s') \<Rightarrow> (Inr result, s')
      | (Inl err, s') \<Rightarrow>
          if message err = TEMPORARY_ERROR C then (Inl err, s')
          else (Inr (Some [ArtifactError (lockFileNameOf C updateArtifact) (message err),
                           ArtifactError (devLockFileNameOf C updateArtifact) (message err)]),
                s'))"

subsection \<open>What a descriptor means in the specification\<close>

text \<open>
  The name that one descriptor adds to a package list (lines 185 to 195): for the type
  \<^verbatim>\<open>depTypes.ryeDevDependencies\<close> the element of index 1 of
  \<^verbatim>\<open>depName.split('/')\<close>, for every other type the field \<^verbatim>\<open>packageName\<close>.
\<close>

definition contributedName :: "DepTypes \<Rightarrow> Upgrade \<Rightarrow> string option" where
  "contributedName dt dep =
     (if depType dep = Some (ryeDevDependencies dt)
      then (case depName dep of None \<Rightarrow> None | Some n \<Rightarrow> js_index (js_split CHR ''/'' n) 1)
      else packageName dep)"

text \<open>
  The key of a descriptor in the words of the specification (its sections 3 and 4.1), not
  of the source: the category, and for the two grouped categories the group, which is the
  first component of the composite identifier. A type that is not recognised counts as
  direct.
\<close>

datatype Category = Direct | OptionalGroup | DevGroup

definition specCategory :: "DepTypes \<Rightarrow> Upgrade \<Rightarrow> Category" where
  "specCategory dt dep =
     (if depType dep = Some (ryeDevDependencies dt) then DevGroup
      else if depType dep = Some (optionalDependencies dt) then OptionalGroup
      else Direct)"

definition specCategoryGroup :: "DepTypes \<Rightarrow> Upgrade \<Rightarrow> Category \<times> string option" where
  "specCategoryGroup dt dep =
     (specCategory dt dep,
      if specCategory dt dep = Direct then None
      else (case depName dep of None \<Rightarrow> None | Some n \<Rightarrow> js_index (js_split CHR ''/'' n) 0))"

subsection \<open>Sample collaborators\<close>

text \<open>
  Concrete collaborators, for evaluating runs: the world is the content of each file,
  \<^verbatim>\<open>getSiblingFileName\<close> gives the sibling name itself (a manifest at the root of
  the repository, as the mocks of \<^verbatim>\<open>rye.spec.ts\<close> do), \<^verbatim>\<open>readLocalFile\<close>
  looks the file up, and \<^verbatim>\<open>exec\<close> is given. The strings of \<open>sampleDepTypes\<close> and
  the sample \<^verbatim>\<open>TEMPORARY_ERROR\<close> are sample values.
\<close>

type_synonym files = "string \<Rightarrow> string option"

definition sampleDepTypes :: DepTypes where
  "sampleDepTypes =
     \<lparr>dependencies = ''project.dependencies'',
      optionalDependencies = ''project.optional-dependencies'',
      ryeDevDependencies = ''tool.rye.dev-dependencies''\<rparr>"

definition sampleCollaborators ::
  "(string list \<Rightarrow> ExecOptions \<Rightarrow> files \<Rightarrow> (js_error + unit) \<times> files) \<Rightarrow> files Collaborators" where
  "sampleCollaborators run =
     \<lparr>getSiblingFileName = (\<lambda>fileName siblingName. siblingName),
      readLocalFile = (\<lambda>fileName w. (Inr (w fileName), w)),
      exec = run,
      TEMPORARY_ERROR = ''temporary-error'',
      depTypes = sampleDepTypes\<rparr>"

text \<open>A runner that writes one file and succeeds, and one that writes it and throws.\<close>

definition execWrites ::
  "string \<Rightarrow> string \<Rightarrow> string list \<Rightarrow> ExecOptions \<Rightarrow> files \<Rightarrow> (js_error + unit) \<times> files" where
  "execWrites fileName content cmds opts w = (Inr (), w(fileName \<mapsto> content))"

definition execWritesThenThrows ::
  "string \<Rightarrow> string \<Rightarrow> string \<Rightarrow> string list \<Rightarrow> ExecOptions \<Rightarrow> files
   \<Rightarrow> (js_error + unit) \<times> files" where
  "execWritesThenThrows fileName content msg cmds opts w =
     (Inl (JsError msg), w(fileName \<mapsto> content))"

definition sampleArtifact :: "string option \<Rightarrow> Upgrade list \<Rightarrow> UpdateArtifact" where
  "sampleArtifact ut deps =
     \<lparr>packageFileName = ''pyproject.toml'', updatedDeps = deps, newPackageFileContent = [],
      config = \<lparr>updateType = ut, constraints = None\<rparr>\<rparr>"

definition sampleProject :: PyProject where
  "sampleProject = \<lparr>project = None\<rparr>"

definition sampleOptions :: ExecOptions where
  "sampleOptions =
     \<lparr>cwdFile = ''pyproject.toml'', docker = (),
      toolConstraints = [\<lparr>toolName = ''python'', constraint = None\<rparr>,
                         \<lparr>toolName = ''rye'', constraint = None\<rparr>]\<rparr>"

definition directDep :: "string \<Rightarrow> Upgrade" where
  "directDep n = \<lparr>depType = Some ''project.dependencies'', depName = Some n, packageName = Some n\<rparr>"

definition devDep :: "string \<Rightarrow> Upgrade" where
  "devDep composite =
     \<lparr>depType = Some ''tool.rye.dev-dependencies'', depName = Some composite, packageName = None\<rparr>"

definition bothLockFiles :: files where
  "bothLockFiles =
     Map.empty(''requirements.lock'' \<mapsto> ''test content'',
               ''requirements-dev.lock'' \<mapsto> ''test dev content'')"

definition devLockFileOnly :: files where
  "devLockFileOnly = Map.empty(''requirements-dev.lock'' \<mapsto> ''test dev content'')"

section \<open>Properties of the classifier\<close>

lemma addPackageToCMDRecord_empty:
  "addPackageToCMDRecord [] p n = [(p, [n])]"
  by (simp add: addPackageToCMDRecord_def)

lemma addPackageToCMDRecord_same:
  "addPackageToCMDRecord [(p, ns)] p n = [(p, ns @ [n])]"
  by (simp add: addPackageToCMDRecord_def)

lemma collectPackages_started:
  "collectPackages dt deps [(ryeUpdatePackageCMD, ns)] =
     (if \<exists>d \<in> set deps. depType d = Some (ryeDevDependencies dt) \<and> depName d = None
      then Inl undefinedSplitError
      else Inr [(ryeUpdatePackageCMD, ns @ map (contributedName dt) deps)])"
  by (induction deps arbitrary: ns)
     (auto simp: addPackageToCMDRecord_same contributedName_def split: option.splits)

lemma collectPackages_fresh:
  "collectPackages dt deps [] =
     (if \<exists>d \<in> set deps. depType d = Some (ryeDevDependencies dt) \<and> depName d = None
      then Inl undefinedSplitError
      else Inr (if deps = [] then []
                else [(ryeUpdatePackageCMD, map (contributedName dt) deps)]))"
  by (cases deps)
     (auto simp: addPackageToCMDRecord_empty collectPackages_started contributedName_def
           split: option.splits)

lemma generateCMDs_eq:
  "generateCMDs dt deps =
     (if \<exists>d \<in> set deps. depType d = Some (ryeDevDependencies dt) \<and> depName d = None
      then Inl undefinedSplitError
      else Inr (if deps = [] then []
                else [ryeUpdatePackageCMD @ '' '' @ js_join '' '' (map (contributedName dt) deps)]))"
  by (simp add: generateCMDs_def collectPackages_fresh emitCMDs_def)

lemma generateCMDs_length:
  "generateCMDs dt deps = Inr cmds \<Longrightarrow> length cmds = (if deps = [] then 0 else 1)"
  by (auto simp: generateCMDs_eq split: if_splits)

lemmas sample_defs =
  sampleDepTypes_def directDep_def devDep_def contributedName_def ryeUpdatePackageCMD_def
  js_index_def js_str_def

text \<open>
  C1, as stated: the classifier gives one command string for each distinct pair of
  category and group. It does not: for a direct descriptor \<open>dep1\<close> and a descriptor
  \<open>groupA/pkgX\<close> of the dev group there are two distinct pairs and one command.
\<close>

theorem generateCMDs_per_group_counterexample:
  "generateCMDs sampleDepTypes [directDep ''dep1'', devDep ''groupA/pkgX'']
     = Inr [''rye lock --update dep1 pkgX'']
   \<and> remdups (map (specCategoryGroup sampleDepTypes) [directDep ''dep1'', devDep ''groupA/pkgX''])
     = [(Direct, None), (DevGroup, Some ''groupA'')]"
  by (simp add: generateCMDs_eq sample_defs specCategoryGroup_def specCategory_def)

text \<open>
  C1, amended: whenever the classifier returns, it gives a single command string for the
  whole upgrade set if there is a descriptor at all and none otherwise, whatever the number
  of distinct pairs of category and group; there are no two command strings, so no package
  name is in more than one of them.
\<close>

theorem generateCMDs_one_command_for_all_groups:
  assumes "generateCMDs dt deps = Inr cmds"
  shows "length cmds = min 1 (length (remdups (map (specCategoryGroup dt) deps)))
         \<and> (\<forall>i j. i < length cmds \<and> j < length cmds \<longrightarrow> i = j)"
proof -
  have len: "length cmds = (if deps = [] then 0 else 1)"
    using assms by (rule generateCMDs_length)
  have "length (remdups (map (specCategoryGroup dt) deps)) = 0 \<longleftrightarrow> deps = []"
    by simp
  then have "min 1 (length (remdups (map (specCategoryGroup dt) deps))) = (if deps = [] then 0 else 1)"
    by (cases "length (remdups (map (specCategoryGroup dt) deps))") auto
  with len show ?thesis by auto
qed

theorem generateCMDs_one_command_for_all_groups_witness:
  "generateCMDs sampleDepTypes
       [directDep ''dep1'', devDep ''group2/dep5'', devDep ''group3/dep7'']
     = Inr [''rye lock --update dep1 dep5 dep7'']
   \<and> length [''rye lock --update dep1 dep5 dep7''] =
       min 1 (length (remdups (map (specCategoryGroup sampleDepTypes)
                [directDep ''dep1'', devDep ''group2/dep5'', devDep ''group3/dep7''])))"
proof -
  have h: "generateCMDs sampleDepTypes
       [directDep ''dep1'', devDep ''group2/dep5'', devDep ''group3/dep7'']
     = Inr [''rye lock --update dep1 dep5 dep7'']"
    by (simp add: generateCMDs_eq sample_defs)
  show ?thesis
    using h generateCMDs_one_command_for_all_groups [OF h] by blast
qed

text \<open>
  C2, as stated: for the two dev-group descriptors \<open>groupA/pkgX\<close> and \<open>groupA/pkgY\<close>
  the single command carries a flag with \<open>groupA\<close>. It does not: the command is the
  update prefix and the two names, and \<open>groupA\<close> occurs nowhere in it.
\<close>

theorem scenario_C_dev_group_flag_counterexample:
  "generateCMDs sampleDepTypes [devDep ''groupA/pkgX'', devDep ''groupA/pkgY'']
     = Inr [''rye lock --update pkgX pkgY'']
   \<and> \<not> sublist ''groupA'' ''rye lock --update pkgX pkgY''"
proof
  show "generateCMDs sampleDepTypes [devDep ''groupA/pkgX'', devDep ''groupA/pkgY'']
     = Inr [''rye lock --update pkgX pkgY'']"
    by (simp add: generateCMDs_eq sample_defs)
  show "\<not> sublist ''groupA'' ''rye lock --update pkgX pkgY''"
    by code_simp
qed

text \<open>
  C2, amended: for the two dev-group descriptors \<open>groupA/pkgX\<close> and \<open>groupA/pkgY\<close>
  the classifier gives the single command \<open>rye lock --update pkgX pkgY\<close>: the update
  prefix followed by the two names, without a flag and without the group.
\<close>

theorem scenario_C_single_update_command:
  "generateCMDs dt
     [\<lparr>depType = Some (ryeDevDependencies dt), depName = Some ''groupA/pkgX'', packageName = p\<rparr>,
      \<lparr>depType = Some (ryeDevDependencies dt), depName = Some ''groupA/pkgY'', packageName = q\<rparr>]
   = Inr [''rye lock --update pkgX pkgY'']"
  by (simp add: generateCMDs_eq contributedName_def ryeUpdatePackageCMD_def js_index_def js_str_def)

text \<open>
  C7: for a non-empty upgrade set of direct descriptors only, the classifier gives exactly
  one command string: the update prefix, a space, and the package names of the descriptors
  joined by spaces in the order of the upgrade set. The direct type is an entry of
  \<^verbatim>\<open>depTypes\<close> other than the one of the rye dev dependencies.
\<close>

theorem generateCMDs_direct_only:
  assumes "deps \<noteq> []"
    and "\<forall>d \<in> set deps. depType d = Some (dependencies dt)"
    and "dependencies dt \<noteq> ryeDevDependencies dt"
  shows "generateCMDs dt deps =
           Inr [ryeUpdatePackageCMD @ '' '' @ js_join '' '' (map packageName deps)]"
proof -
  have names: "map (contributedName dt) deps = map packageName deps"
    using assms(2,3) by (simp add: contributedName_def)
  have no_throw: "\<not> (\<exists>d \<in> set deps. depType d = Some (ryeDevDependencies dt) \<and> depName d = None)"
    using assms(2,3) by auto
  show ?thesis
    unfolding generateCMDs_eq names using no_throw assms(1) by simp
qed

theorem generateCMDs_direct_only_witness:
  "generateCMDs sampleDepTypes [directDep ''dep1'', directDep ''dep2'']
     = Inr [''rye lock --update dep1 dep2'']"
proof -
  have h1: "[directDep ''dep1'', directDep ''dep2''] \<noteq> []"
    by simp
  have h2: "\<forall>d \<in> set [directDep ''dep1'', directDep ''dep2'']. depType d = Some (dependencies sampleDepTypes)"
    by (simp add: sample_defs)
  have h3: "dependencies sampleDepTypes \<noteq> ryeDevDependencies sampleDepTypes"
    by (simp add: sample_defs)
  show ?thesis
    using generateCMDs_direct_only [OF h1 h2 h3] by (simp add: sample_defs)
qed

text \<open>
  C10: for every upgrade set the classifier gives at most one command string. It throws
  when a descriptor of the rye dev dependencies has no \<^verbatim>\<open>depName\<close>; otherwise it
  gives nothing for the empty set and else the one command made of the prefix
  \<open>rye lock --update\<close>, a space, and the names of all descriptors joined by spaces, where a
  dev-group descriptor gives the second component of its identifier split at \<open>/\<close> and
  any other descriptor its \<^verbatim>\<open>packageName\<close>. No flag for a group is ever part of it.
\<close>

theorem generateCMDs_single_prefix:
  "generateCMDs dt deps =
     (if \<exists>d \<in> set deps. depType d = Some (ryeDevDependencies dt) \<and> depName d = None
      then Inl undefinedSplitError
      else Inr (if deps = [] then []
                else [''rye lock --update'' @ '' '' @ js_join '' '' (map (contributedName dt) deps)]))
   \<and> (\<forall>cmds. generateCMDs dt deps = Inr cmds \<longrightarrow> length cmds \<le> 1)"
  using generateCMDs_length [of dt deps]
  by (simp add: generateCMDs_eq ryeUpdatePackageCMD_def)

theorem generateCMDs_single_prefix_witness:
  "generateCMDs sampleDepTypes
     [directDep ''dep1'',
      \<lparr>depType = Some ''project.optional-dependencies'', depName = Some ''group1/dep3'',
       packageName = Some ''dep3''\<rparr>,
      devDep ''group2/dep5'', devDep ''group3/dep7'',
      \<lparr>depType = None, depName = None, packageName = Some ''dep9''\<rparr>]
   = Inr [''rye lock --update dep1 dep3 dep5 dep7 dep9'']"
  using generateCMDs_single_prefix [of sampleDepTypes
     "[directDep ''dep1'',
      \<lparr>depType = Some ''project.optional-dependencies'', depName = Some ''group1/dep3'',
       packageName = Some ''dep3''\<rparr>,
      devDep ''group2/dep5'', devDep ''group3/dep7'',
      \<lparr>depType = None, depName = None, packageName = Some ''dep9''\<rparr>]"]
  by (simp add: sample_defs)


section \<open>Properties of \<^verbatim>\<open>updateArtifacts\<close>\<close>

lemmas run_defs =
  updateArtifacts_def updateArtifactsTry_def andThen_def awaitRead_def awaitExec_def
  returns_def evaluated_def

lemmas sample_run_defs =
  sampleCollaborators_def sampleArtifact_def sampleProject_def sampleOptions_def
  lockFileNameOf_def devLockFileNameOf_def execOptionsOf_def commandSet_def
  isLockFileMaintenance_def bothLockFiles_def devLockFileOnly_def execWrites_def
  execWritesThenThrows_def ryeUpdateLockCMD_def

text \<open>
  Once both lock files are read, one of them is there and the commands are built, the
  rest of the \<^verbatim>\<open>try\<close> block runs: \<^verbatim>\<open>exec\<close>, the two reads and the comparison.
\<close>

lemma updateArtifactsTry_after_snapshot:
  assumes "readLocalFile C (lockFileNameOf C ua) (world s) = (Inr c1, w1)"
    and "readLocalFile C (devLockFileNameOf C ua) w1 = (Inr c2, w2)"
    and "\<not> (c1 = None \<and> c2 = None)"
    and "commandSet (depTypes C) ua = Inr cmds"
  shows "updateArtifactsTry C ua proj s =
     andThen (awaitExec C cmds (execOptionsOf ua proj)) (\<lambda>_.
       andThen (awaitRead C (lockFileNameOf C ua)) (\<lambda>newLockContent.
       andThen (awaitRead C (devLockFileNameOf C ua)) (\<lambda>newDevLockContent.
         let fileChanges =
               fileChangesOf (lockFileNameOf C ua) (devLockFileNameOf C ua)
                 c1 c2 newLockContent newDevLockContent
         in returns (if fileChanges = [] then None else Some fileChanges))))
       (s\<lparr>world := w2\<rparr>)"
  using assms
  by (auto simp add: updateArtifactsTry_def andThen_def awaitRead_def evaluated_def)

lemma execSnapshots_after_snapshot:
  assumes "readLocalFile C (lockFileNameOf C ua) (world s) = (Inr c1, w1)"
    and "readLocalFile C (devLockFileNameOf C ua) w1 = (Inr c2, w2)"
    and "\<not> (c1 = None \<and> c2 = None)"
    and "commandSet (depTypes C) ua = Inr cmds"
  shows "execSnapshots (snd (updateArtifacts C ua proj s)) =
           execSnapshots s @ [(cmds, execOptionsOf ua proj)]"
  by (auto simp add: updateArtifacts_def updateArtifactsTry_after_snapshot [OF assms]
        andThen_def awaitExec_def awaitRead_def returns_def Let_def
      split: prod.splits sum.splits)

lemma updateArtifacts_compared:
  assumes "readLocalFile C (lockFileNameOf C ua) (world s) = (Inr c1, w1)"
    and "readLocalFile C (devLockFileNameOf C ua) w1 = (Inr c2, w2)"
    and "\<not> (c1 = None \<and> c2 = None)"
    and "commandSet (depTypes C) ua = Inr cmds"
    and "exec C cmds (execOptionsOf ua proj) w2 = (Inr (), w3)"
    and "readLocalFile C (lockFileNameOf C ua) w3 = (Inr n1, w4)"
    and "readLocalFile C (devLockFileNameOf C ua) w4 = (Inr n2, w5)"
  shows "updateArtifacts C ua proj s =
     (Inr (if c1 = n1 \<and> c2 = n2 then None
           else Some ((if c1 \<noteq> n1 then [FileAddition (lockFileNameOf C ua) n1] else [])
                      @ (if c2 \<noteq> n2 then [FileAddition (devLockFileNameOf C ua) n2] else []))),
      \<lparr>world = w5, execSnapshots = execSnapshots s @ [(cmds, execOptionsOf ua proj)]\<rparr>)"
  using assms(5-7)
  by (simp add: updateArtifacts_def updateArtifactsTry_after_snapshot [OF assms(1-4)]
        andThen_def awaitExec_def awaitRead_def returns_def fileChangesOf_def)

lemma ignores_updatedDeps:
  "lockFileNameOf C (ua\<lparr>updatedDeps := deps\<rparr>) = lockFileNameOf C ua"
  "devLockFileNameOf C (ua\<lparr>updatedDeps := deps\<rparr>) = devLockFileNameOf C ua"
  "execOptionsOf (ua\<lparr>updatedDeps := deps\<rparr>) proj = execOptionsOf ua proj"
  "isLockFileMaintenance (ua\<lparr>updatedDeps := deps\<rparr>) = isLockFileMaintenance ua"
  by (simp_all add: lockFileNameOf_def devLockFileNameOf_def execOptionsOf_def
        isLockFileMaintenance_def)

lemma commandSet_maintenance:
  "isLockFileMaintenance ua \<Longrightarrow> commandSet dt ua = Inr [ryeUpdateLockCMD]"
  by (simp add: commandSet_def)

lemma maintenance_ignores_updatedDeps:
  assumes "isLockFileMaintenance ua"
  shows "updateArtifacts C (ua\<lparr>updatedDeps := deps\<rparr>) proj s = updateArtifacts C ua proj s"
proof -
  have "commandSet (depTypes C) (ua\<lparr>updatedDeps := deps\<rparr>) = commandSet (depTypes C) ua"
    using assms by (simp add: commandSet_maintenance ignores_updatedDeps)
  then have "updateArtifactsTry C (ua\<lparr>updatedDeps := deps\<rparr>) proj = updateArtifactsTry C ua proj"
    by (simp add: updateArtifactsTry_def ignores_updatedDeps cong: if_cong)
  then show ?thesis
    by (simp add: updateArtifacts_def ignores_updatedDeps
          cong: if_cong prod.case_cong sum.case_cong)
qed

text \<open>
  C3: in every run in which \<^verbatim>\<open>exec\<close> throws an error whose message is not
  \<^verbatim>\<open>TEMPORARY_ERROR\<close>, the result is exactly two error records, the first for the
  primary lock file and the second for the dev lock file, each with the message of the
  error as its \<^verbatim>\<open>stderr\<close>. Whatever the commands did to the files before the error,
  no file is read again and no change is reported.
\<close>

theorem updateArtifacts_exec_failure_two_error_records:
  assumes "readLocalFile C (lockFileNameOf C ua) (world s) = (Inr c1, w1)"
    and "readLocalFile C (devLockFileNameOf C ua) w1 = (Inr c2, w2)"
    and "\<not> (c1 = None \<and> c2 = None)"
    and "commandSet (depTypes C) ua = Inr cmds"
    and "exec C cmds (execOptionsOf ua proj) w2 = (Inl err, w3)"
    and "message err \<noteq> TEMPORARY_ERROR C"
  shows "updateArtifacts C ua proj s =
     (Inr (Some [ArtifactError (lockFileNameOf C ua) (message err),
                 ArtifactError (devLockFileNameOf C ua) (message err)]),
      \<lparr>world = w3, execSnapshots = execSnapshots s @ [(cmds, execOptionsOf ua proj)]\<rparr>)"
  using assms(5,6)
  by (simp add: updateArtifacts_def updateArtifactsTry_after_snapshot [OF assms(1-4)]
        andThen_def awaitExec_def)

text \<open>
  The witness is scenario E: both lock files are there, and the runner rewrites the
  primary lock file and then throws \<open>disk full\<close>.
\<close>

theorem updateArtifacts_exec_failure_two_error_records_witness:
  "updateArtifacts
     (sampleCollaborators (execWritesThenThrows ''requirements.lock'' ''partial'' ''disk full''))
     (sampleArtifact None [directDep ''dep1'']) sampleProject
     \<lparr>world = bothLockFiles, execSnapshots = []\<rparr>
   = (Inr (Some [ArtifactError ''requirements.lock'' ''disk full'',
                 ArtifactError ''requirements-dev.lock'' ''disk full'']),
      \<lparr>world = bothLockFiles(''requirements.lock'' \<mapsto> ''partial''),
       execSnapshots = [([''rye lock --update dep1''], sampleOptions)]\<rparr>)"
proof -
  let ?C = "sampleCollaborators (execWritesThenThrows ''requirements.lock'' ''partial'' ''disk full'')"
  let ?ua = "sampleArtifact None [directDep ''dep1'']"
  let ?s = "\<lparr>world = bothLockFiles, execSnapshots = []\<rparr>"
  have h1: "readLocalFile ?C (lockFileNameOf ?C ?ua) (world ?s)
              = (Inr (Some ''test content''), bothLockFiles)"
    by (simp add: sample_run_defs)
  have h2: "readLocalFile ?C (devLockFileNameOf ?C ?ua) bothLockFiles
              = (Inr (Some ''test dev content''), bothLockFiles)"
    by (simp add: sample_run_defs)
  have h3: "\<not> (Some ''test content'' = None \<and> Some ''test dev content'' = None)"
    by simp
  have h4: "commandSet (depTypes ?C) ?ua = Inr [''rye lock --update dep1'']"
    by (simp add: sample_run_defs generateCMDs_eq sample_defs)
  have h5: "exec ?C [''rye lock --update dep1''] (execOptionsOf ?ua sampleProject) bothLockFiles
              = (Inl (JsError ''disk full''), bothLockFiles(''requirements.lock'' \<mapsto> ''partial''))"
    by (simp add: sample_run_defs)
  have h6: "message (JsError ''disk full'') \<noteq> TEMPORARY_ERROR ?C"
    by (simp add: sample_run_defs)
  show ?thesis
    using updateArtifacts_exec_failure_two_error_records [OF h1 h2 h3 h4 h5 h6]
    by (simp add: sample_run_defs)
qed

text \<open>
  C4: in every run in which \<^verbatim>\<open>exec\<close> throws an error whose message is
  \<^verbatim>\<open>TEMPORARY_ERROR\<close>, \<^verbatim>\<open>updateArtifacts\<close> throws that same error and gives no
  error records.
\<close>

theorem updateArtifacts_temporary_error_rethrown:
  assumes "readLocalFile C (lockFileNameOf C ua) (world s) = (Inr c1, w1)"
    and "readLocalFile C (devLockFileNameOf C ua) w1 = (Inr c2, w2)"
    and "\<not> (c1 = None \<and> c2 = None)"
    and "commandSet (depTypes C) ua = Inr cmds"
    and "exec C cmds (execOptionsOf ua proj) w2 = (Inl err, w3)"
    and "message err = TEMPORARY_ERROR C"
  shows "updateArtifacts C ua proj s =
     (Inl err,
      \<lparr>world = w3, execSnapshots = execSnapshots s @ [(cmds, execOptionsOf ua proj)]\<rparr>)"
  using assms(5,6)
  by (simp add: updateArtifacts_def updateArtifactsTry_after_snapshot [OF assms(1-4)]
        andThen_def awaitExec_def)

theorem updateArtifacts_temporary_error_rethrown_witness:
  "updateArtifacts
     (sampleCollaborators
        (execWritesThenThrows ''requirements.lock'' ''partial'' ''temporary-error''))
     (sampleArtifact None [directDep ''dep1'']) sampleProject
     \<lparr>world = bothLockFiles, execSnapshots = []\<rparr>
   = (Inl (JsError ''temporary-error''),
      \<lparr>world = bothLockFiles(''requirements.lock'' \<mapsto> ''partial''),
       execSnapshots = [([''rye lock --update dep1''], sampleOptions)]\<rparr>)"
proof -
  let ?C = "sampleCollaborators
              (execWritesThenThrows ''requirements.lock'' ''partial'' ''temporary-error'')"
  let ?ua = "sampleArtifact None [directDep ''dep1'']"
  let ?s = "\<lparr>world = bothLockFiles, execSnapshots = []\<rparr>"
  have h1: "readLocalFile ?C (lockFileNameOf ?C ?ua) (world ?s)
              = (Inr (Some ''test content''), bothLockFiles)"
    by (simp add: sample_run_defs)
  have h2: "readLocalFile ?C (devLockFileNameOf ?C ?ua) bothLockFiles
              = (Inr (Some ''test dev content''), bothLockFiles)"
    by (simp add: sample_run_defs)
  have h3: "\<not> (Some ''test content'' = None \<and> Some ''test dev content'' = None)"
    by simp
  have h4: "commandSet (depTypes ?C) ?ua = Inr [''rye lock --update dep1'']"
    by (simp add: sample_run_defs generateCMDs_eq sample_defs)
  have h5: "exec ?C [''rye lock --update dep1''] (execOptionsOf ?ua sampleProject) bothLockFiles
              = (Inl (JsError ''temporary-error''),
                 bothLockFiles(''requirements.lock'' \<mapsto> ''partial''))"
    by (simp add: sample_run_defs)
  have h6: "message (JsError ''temporary-error'') = TEMPORARY_ERROR ?C"
    by (simp add: sample_run_defs)
  show ?thesis
    using updateArtifacts_temporary_error_rethrown [OF h1 h2 h3 h4 h5 h6]
    by (simp add: sample_run_defs)
qed

text \<open>
  C5: in every run in which both lock files are absent before execution,
  \<^verbatim>\<open>updateArtifacts\<close> returns \<^verbatim>\<open>null\<close> and \<^verbatim>\<open>exec\<close> is not called: the
  record of its calls is as it was.
\<close>

theorem updateArtifacts_no_lock_files:
  assumes "readLocalFile C (lockFileNameOf C ua) (world s) = (Inr None, w1)"
    and "readLocalFile C (devLockFileNameOf C ua) w1 = (Inr None, w2)"
  shows "updateArtifacts C ua proj s = (Inr None, \<lparr>world = w2, execSnapshots = execSnapshots s\<rparr>)"
  using assms by (simp add: run_defs)

theorem updateArtifacts_no_lock_files_witness:
  "updateArtifacts (sampleCollaborators (execWrites ''requirements.lock'' ''new''))
     (sampleArtifact None [directDep ''dep1'']) sampleProject
     \<lparr>world = Map.empty, execSnapshots = []\<rparr>
   = (Inr None, \<lparr>world = Map.empty, execSnapshots = []\<rparr>)"
proof -
  let ?C = "sampleCollaborators (execWrites ''requirements.lock'' ''new'')"
  let ?ua = "sampleArtifact None [directDep ''dep1'']"
  let ?s = "\<lparr>world = Map.empty, execSnapshots = []\<rparr> :: files Run"
  have h1: "readLocalFile ?C (lockFileNameOf ?C ?ua) (world ?s) = (Inr None, Map.empty)"
    by (simp add: sample_run_defs)
  have h2: "readLocalFile ?C (devLockFileNameOf ?C ?ua) Map.empty = (Inr None, Map.empty)"
    by (simp add: sample_run_defs)
  show ?thesis
    using updateArtifacts_no_lock_files [OF h1 h2] by simp
qed


text \<open>
  C8: in a run that reaches the comparison, the result lists a change record for the
  primary lock file exactly when its content after the run differs from the one before,
  then one for the dev lock file exactly when its content differs, each with the path and
  the new content; a file that was absent and is now there differs. A file whose content is
  the same is not listed, and when neither differs the result is \<^verbatim>\<open>null\<close>.
\<close>

theorem updateArtifacts_change_records:
  assumes "readLocalFile C (lockFileNameOf C ua) (world s) = (Inr c1, w1)"
    and "readLocalFile C (devLockFileNameOf C ua) w1 = (Inr c2, w2)"
    and "\<not> (c1 = None \<and> c2 = None)"
    and "commandSet (depTypes C) ua = Inr cmds"
    and "exec C cmds (execOptionsOf ua proj) w2 = (Inr (), w3)"
    and "readLocalFile C (lockFileNameOf C ua) w3 = (Inr n1, w4)"
    and "readLocalFile C (devLockFileNameOf C ua) w4 = (Inr n2, w5)"
  shows "fst (updateArtifacts C ua proj s) =
     Inr (if c1 = n1 \<and> c2 = n2 then None
          else Some ((if c1 \<noteq> n1 then [FileAddition (lockFileNameOf C ua) n1] else [])
                     @ (if c2 \<noteq> n2 then [FileAddition (devLockFileNameOf C ua) n2] else [])))"
  by (simp add: updateArtifacts_compared [OF assms])

text \<open>
  The witness is scenario A: both lock files are there and the runner rewrites the
  primary one only.
\<close>

theorem updateArtifacts_change_records_witness:
  "fst (updateArtifacts
          (sampleCollaborators (execWrites ''requirements.lock'' ''changed test content''))
          (sampleArtifact None [directDep ''dep1'']) sampleProject
          \<lparr>world = bothLockFiles, execSnapshots = []\<rparr>)
   = Inr (Some [FileAddition ''requirements.lock'' (Some ''changed test content'')])"
proof -
  let ?C = "sampleCollaborators (execWrites ''requirements.lock'' ''changed test content'')"
  let ?ua = "sampleArtifact None [directDep ''dep1'']"
  let ?s = "\<lparr>world = bothLockFiles, execSnapshots = []\<rparr>"
  let ?w = "bothLockFiles(''requirements.lock'' \<mapsto> ''changed test content'')"
  have h1: "readLocalFile ?C (lockFileNameOf ?C ?ua) (world ?s)
              = (Inr (Some ''test content''), bothLockFiles)"
    by (simp add: sample_run_defs)
  have h2: "readLocalFile ?C (devLockFileNameOf ?C ?ua) bothLockFiles
              = (Inr (Some ''test dev content''), bothLockFiles)"
    by (simp add: sample_run_defs)
  have h3: "\<not> (Some ''test content'' = None \<and> Some ''test dev content'' = None)"
    by simp
  have h4: "commandSet (depTypes ?C) ?ua = Inr [''rye lock --update dep1'']"
    by (simp add: sample_run_defs generateCMDs_eq sample_defs)
  have h5: "exec ?C [''rye lock --update dep1''] (execOptionsOf ?ua sampleProject) bothLockFiles
              = (Inr (), ?w)"
    by (simp add: sample_run_defs)
  have h6: "readLocalFile ?C (lockFileNameOf ?C ?ua) ?w
              = (Inr (Some ''changed test content''), ?w)"
    by (simp add: sample_run_defs)
  have h7: "readLocalFile ?C (devLockFileNameOf ?C ?ua) ?w
              = (Inr (Some ''test dev content''), ?w)"
    by (simp add: sample_run_defs)
  show ?thesis
    using updateArtifacts_change_records [OF h1 h2 h3 h4 h5 h6 h7]
    by (simp add: sample_run_defs)
qed

text \<open>
  C6, as stated: every run in maintenance mode issues exactly one command. It does not
  when no lock file is there: the run returns \<^verbatim>\<open>null\<close> before \<^verbatim>\<open>exec\<close> and
  issues nothing.
\<close>

theorem maintenance_without_lock_files_counterexample:
  "isLockFileMaintenance (sampleArtifact (Some ''lockFileMaintenance'') [])
   \<and> updateArtifacts (sampleCollaborators (execWrites ''requirements.lock'' ''new''))
       (sampleArtifact (Some ''lockFileMaintenance'') []) sampleProject
       \<lparr>world = Map.empty, execSnapshots = []\<rparr>
     = (Inr None, \<lparr>world = Map.empty, execSnapshots = []\<rparr>)"
  by (simp add: run_defs sample_run_defs)

text \<open>
  C6, amended: in every run in maintenance mode in which both lock files are read and at
  least one of them is there, \<^verbatim>\<open>exec\<close> is called exactly once, with the single
  command \<open>rye lock\<close>; and in maintenance mode the upgrade set has no influence at all
  on the run, so the classifier is not consulted.
\<close>

theorem maintenance_single_lock_command:
  assumes "isLockFileMaintenance ua"
    and "readLocalFile C (lockFileNameOf C ua) (world s) = (Inr c1, w1)"
    and "readLocalFile C (devLockFileNameOf C ua) w1 = (Inr c2, w2)"
    and "\<not> (c1 = None \<and> c2 = None)"
  shows "execSnapshots (snd (updateArtifacts C ua proj s)) =
           execSnapshots s @ [([''rye lock''], execOptionsOf ua proj)]
         \<and> (\<forall>deps. updateArtifacts C (ua\<lparr>updatedDeps := deps\<rparr>) proj s
                     = updateArtifacts C ua proj s)"
proof -
  have "commandSet (depTypes C) ua = Inr [''rye lock'']"
    using assms(1) by (simp add: commandSet_maintenance ryeUpdateLockCMD_def)
  then have "execSnapshots (snd (updateArtifacts C ua proj s)) =
           execSnapshots s @ [([''rye lock''], execOptionsOf ua proj)]"
    by (rule execSnapshots_after_snapshot [OF assms(2-4)])
  then show ?thesis
    by (simp add: maintenance_ignores_updatedDeps [OF assms(1)])
qed

text \<open>
  The witness: maintenance mode with both lock files, and an upgrade set on which the
  classifier would throw (a rye dev descriptor without \<^verbatim>\<open>depName\<close>).
\<close>

theorem maintenance_single_lock_command_witness:
  "generateCMDs sampleDepTypes
       [\<lparr>depType = Some ''tool.rye.dev-dependencies'', depName = None, packageName = None\<rparr>]
     = Inl undefinedSplitError
   \<and> execSnapshots (snd (updateArtifacts
         (sampleCollaborators (execWrites ''requirements.lock'' ''changed test content''))
         (sampleArtifact (Some ''lockFileMaintenance'')
            [\<lparr>depType = Some ''tool.rye.dev-dependencies'', depName = None, packageName = None\<rparr>])
         sampleProject \<lparr>world = bothLockFiles, execSnapshots = []\<rparr>))
     = [([''rye lock''], sampleOptions)]"
proof -
  let ?C = "sampleCollaborators (execWrites ''requirements.lock'' ''changed test content'')"
  let ?ua = "sampleArtifact (Some ''lockFileMaintenance'')
            [\<lparr>depType = Some ''tool.rye.dev-dependencies'', depName = None, packageName = None\<rparr>]"
  let ?s = "\<lparr>world = bothLockFiles, execSnapshots = []\<rparr>"
  have h0: "isLockFileMaintenance ?ua"
    by (simp add: sample_run_defs)
  have h1: "readLocalFile ?C (lockFileNameOf ?C ?ua) (world ?s)
              = (Inr (Some ''test content''), bothLockFiles)"
    by (simp add: sample_run_defs)
  have h2: "readLocalFile ?C (devLockFileNameOf ?C ?ua) bothLockFiles
              = (Inr (Some ''test dev content''), bothLockFiles)"
    by (simp add: sample_run_defs)
  have h3: "\<not> (Some ''test content'' = None \<and> Some ''test dev content'' = None)"
    by simp
  have throws: "generateCMDs sampleDepTypes
       [\<lparr>depType = Some ''tool.rye.dev-dependencies'', depName = None, packageName = None\<rparr>]
     = Inl undefinedSplitError"
    by (simp add: generateCMDs_eq sample_defs)
  show ?thesis
    using throws maintenance_single_lock_command [OF h0 h1 h2 h3, of sampleProject]
    by (simp add: sample_run_defs)
qed

text \<open>
  C9, as stated: when exactly one of the two lock files is absent before execution, the
  program takes no action and returns no change. It does act: with the primary lock file
  absent and the dev lock file there, \<^verbatim>\<open>exec\<close> is called with the update command,
  and when the command creates the primary lock file the result is a change record for it.
\<close>

theorem one_lock_file_absent_counterexample:
  "devLockFileOnly ''requirements.lock'' = None
   \<and> devLockFileOnly ''requirements-dev.lock'' = Some ''test dev content''
   \<and> updateArtifacts (sampleCollaborators (execWrites ''requirements.lock'' ''new lock''))
       (sampleArtifact None [directDep ''dep1'']) sampleProject
       \<lparr>world = devLockFileOnly, execSnapshots = []\<rparr>
     = (Inr (Some [FileAddition ''requirements.lock'' (Some ''new lock'')]),
        \<lparr>world = devLockFileOnly(''requirements.lock'' \<mapsto> ''new lock''),
         execSnapshots = [([''rye lock --update dep1''], sampleOptions)]\<rparr>)"
  by (simp add: run_defs sample_run_defs generateCMDs_eq sample_defs fileChangesOf_def)

text \<open>
  C9, amended: when exactly one of the two lock files is absent before execution, the
  run does not stop there and reports no error for the absence; it goes on to build the
  command set. If building it throws (the classifier, on a rye dev descriptor without
  \<^verbatim>\<open>depName\<close>), \<^verbatim>\<open>exec\<close> is not called and the \<^verbatim>\<open>catch\<close> clause
  decides: the error is thrown again when its message is \<^verbatim>\<open>TEMPORARY_ERROR\<close>, and
  otherwise the result is the two error records. If the command set is built,
  \<^verbatim>\<open>exec\<close> is called exactly once with it, and when \<^verbatim>\<open>exec\<close> and the two reads
  after it succeed, the result is as in a run with both files: the change records of the
  files whose content differs, the one that was absent included when it is there
  afterwards, or \<^verbatim>\<open>null\<close> when neither differs.
\<close>

theorem one_lock_file_absent_proceeds:
  assumes "readLocalFile C (lockFileNameOf C ua) (world s) = (Inr c1, w1)"
    and "readLocalFile C (devLockFileNameOf C ua) w1 = (Inr c2, w2)"
    and "(c1 = None) \<noteq> (c2 = None)"
  shows "(case commandSet (depTypes C) ua of
            Inl err \<Rightarrow>
              updateArtifacts C ua proj s =
                (if message err = TEMPORARY_ERROR C then Inl err
                 else Inr (Some [ArtifactError (lockFileNameOf C ua) (message err),
                                 ArtifactError (devLockFileNameOf C ua) (message err)]),
                 \<lparr>world = w2, execSnapshots = execSnapshots s\<rparr>)
          | Inr cmds \<Rightarrow>
              execSnapshots (snd (updateArtifacts C ua proj s)) =
                execSnapshots s @ [(cmds, execOptionsOf ua proj)]
              \<and> (\<forall>w3 n1 w4 n2 w5.
                    exec C cmds (execOptionsOf ua proj) w2 = (Inr (), w3)
                    \<and> readLocalFile C (lockFileNameOf C ua) w3 = (Inr n1, w4)
                    \<and> readLocalFile C (devLockFileNameOf C ua) w4 = (Inr n2, w5)
                    \<longrightarrow> fst (updateArtifacts C ua proj s) =
                          Inr (if c1 = n1 \<and> c2 = n2 then None
                               else Some
                                 ((if c1 \<noteq> n1
                                   then [FileAddition (lockFileNameOf C ua) n1] else [])
                                  @ (if c2 \<noteq> n2
                                     then [FileAddition (devLockFileNameOf C ua) n2] else [])))))"
proof (cases "commandSet (depTypes C) ua")
  case (Inl err)
  have present: "\<not> (c1 = None \<and> c2 = None)"
    using assms(3) by auto
  have "updateArtifactsTry C ua proj s =
          (Inl err, \<lparr>world = w2, execSnapshots = execSnapshots s\<rparr>)"
    using assms(1,2) present Inl
    by (auto simp add: updateArtifactsTry_def andThen_def awaitRead_def evaluated_def)
  then show ?thesis
    using Inl by (simp add: updateArtifacts_def)
next
  case (Inr cmds)
  have present: "\<not> (c1 = None \<and> c2 = None)"
    using assms(3) by auto
  have called: "execSnapshots (snd (updateArtifacts C ua proj s)) =
           execSnapshots s @ [(cmds, execOptionsOf ua proj)]"
    by (rule execSnapshots_after_snapshot [OF assms(1,2) present Inr])
  have compared: "fst (updateArtifacts C ua proj s) =
          Inr (if c1 = n1 \<and> c2 = n2 then None
               else Some ((if c1 \<noteq> n1 then [FileAddition (lockFileNameOf C ua) n1] else [])
                          @ (if c2 \<noteq> n2 then [FileAddition (devLockFileNameOf C ua) n2] else [])))"
    if "exec C cmds (execOptionsOf ua proj) w2 = (Inr (), w3)"
      and "readLocalFile C (lockFileNameOf C ua) w3 = (Inr n1, w4)"
      and "readLocalFile C (devLockFileNameOf C ua) w4 = (Inr n2, w5)"
    for w3 n1 w4 n2 w5
    by (simp add: updateArtifacts_compared [OF assms(1,2) present Inr that])
  have "execSnapshots (snd (updateArtifacts C ua proj s)) =
           execSnapshots s @ [(cmds, execOptionsOf ua proj)]
        \<and> (\<forall>w3 n1 w4 n2 w5.
              exec C cmds (execOptionsOf ua proj) w2 = (Inr (), w3)
              \<and> readLocalFile C (lockFileNameOf C ua) w3 = (Inr n1, w4)
              \<and> readLocalFile C (devLockFileNameOf C ua) w4 = (Inr n2, w5)
              \<longrightarrow> fst (updateArtifacts C ua proj s) =
                    Inr (if c1 = n1 \<and> c2 = n2 then None
                         else Some
                           ((if c1 \<noteq> n1
                             then [FileAddition (lockFileNameOf C ua) n1] else [])
                            @ (if c2 \<noteq> n2
                               then [FileAddition (devLockFileNameOf C ua) n2] else []))))"
    using called compared by blast
  then show ?thesis
    unfolding Inr sum.case .
qed

text \<open>
  The witness: the primary lock file is absent and the dev lock file is there. With the
  upgrade set of one direct descriptor the runner is called once and the new primary lock
  file is reported; with a rye dev descriptor without \<^verbatim>\<open>depName\<close> the runner is
  not called and the result is the two error records.
\<close>

theorem one_lock_file_absent_proceeds_witness:
  "execSnapshots (snd (updateArtifacts
       (sampleCollaborators (execWrites ''requirements.lock'' ''new lock''))
       (sampleArtifact None [directDep ''dep1'']) sampleProject
       \<lparr>world = devLockFileOnly, execSnapshots = []\<rparr>))
     = [([''rye lock --update dep1''], sampleOptions)]
   \<and> fst (updateArtifacts
       (sampleCollaborators (execWrites ''requirements.lock'' ''new lock''))
       (sampleArtifact None [directDep ''dep1'']) sampleProject
       \<lparr>world = devLockFileOnly, execSnapshots = []\<rparr>)
     = Inr (Some [FileAddition ''requirements.lock'' (Some ''new lock'')])
   \<and> updateArtifacts
       (sampleCollaborators (execWrites ''requirements.lock'' ''new lock''))
       (sampleArtifact None
          [\<lparr>depType = Some ''tool.rye.dev-dependencies'', depName = None, packageName = None\<rparr>])
       sampleProject \<lparr>world = devLockFileOnly, execSnapshots = []\<rparr>
     = (Inr (Some [ArtifactError ''requirements.lock'' (message undefinedSplitError),
                   ArtifactError ''requirements-dev.lock'' (message undefinedSplitError)]),
        \<lparr>world = devLockFileOnly, execSnapshots = []\<rparr>)"
proof -
  let ?C = "sampleCollaborators (execWrites ''requirements.lock'' ''new lock'')"
  let ?ua = "sampleArtifact None [directDep ''dep1'']"
  let ?ub = "sampleArtifact None
          [\<lparr>depType = Some ''tool.rye.dev-dependencies'', depName = None, packageName = None\<rparr>]"
  let ?s = "\<lparr>world = devLockFileOnly, execSnapshots = []\<rparr>"
  let ?w = "devLockFileOnly(''requirements.lock'' \<mapsto> ''new lock'')"
  have h1: "readLocalFile ?C (lockFileNameOf ?C ?ua) (world ?s) = (Inr None, devLockFileOnly)"
    by (simp add: sample_run_defs)
  have h2: "readLocalFile ?C (devLockFileNameOf ?C ?ua) devLockFileOnly
              = (Inr (Some ''test dev content''), devLockFileOnly)"
    by (simp add: sample_run_defs)
  have h3: "((None :: string option) = None) \<noteq> (Some ''test dev content'' = None)"
    by simp
  have h4: "commandSet (depTypes ?C) ?ua = Inr [''rye lock --update dep1'']"
    by (simp add: sample_run_defs generateCMDs_eq sample_defs)
  have h5: "exec ?C [''rye lock --update dep1''] (execOptionsOf ?ua sampleProject) devLockFileOnly
              = (Inr (), ?w)"
    by (simp add: sample_run_defs)
  have h6: "readLocalFile ?C (lockFileNameOf ?C ?ua) ?w = (Inr (Some ''new lock''), ?w)"
    by (simp add: sample_run_defs)
  have h7: "readLocalFile ?C (devLockFileNameOf ?C ?ua) ?w = (Inr (Some ''test dev content''), ?w)"
    by (simp add: sample_run_defs)
  have inst: "execSnapshots (snd (updateArtifacts ?C ?ua sampleProject ?s)) =
                execSnapshots ?s @ [([''rye lock --update dep1''], execOptionsOf ?ua sampleProject)]
              \<and> (\<forall>w3 n1 w4 n2 w5.
                    exec ?C [''rye lock --update dep1''] (execOptionsOf ?ua sampleProject)
                        devLockFileOnly = (Inr (), w3)
                    \<and> readLocalFile ?C (lockFileNameOf ?C ?ua) w3 = (Inr n1, w4)
                    \<and> readLocalFile ?C (devLockFileNameOf ?C ?ua) w4 = (Inr n2, w5)
                    \<longrightarrow> fst (updateArtifacts ?C ?ua sampleProject ?s) =
                          Inr (if None = n1 \<and> Some ''test dev content'' = n2 then None
                               else Some
                                 ((if None \<noteq> n1
                                   then [FileAddition (lockFileNameOf ?C ?ua) n1] else [])
                                  @ (if Some ''test dev content'' \<noteq> n2
                                     then [FileAddition (devLockFileNameOf ?C ?ua) n2] else []))))"
    by (rule one_lock_file_absent_proceeds [OF h1 h2 h3, of sampleProject, unfolded h4 sum.case])
  have log: "execSnapshots (snd (updateArtifacts ?C ?ua sampleProject ?s))
               = [([''rye lock --update dep1''], sampleOptions)]"
    using inst by (simp add: sample_run_defs)
  have "fst (updateArtifacts ?C ?ua sampleProject ?s) =
          Inr (if None = Some ''new lock'' \<and> Some ''test dev content'' = Some ''test dev content''
               then None
               else Some
                 ((if None \<noteq> Some ''new lock''
                   then [FileAddition (lockFileNameOf ?C ?ua) (Some ''new lock'')] else [])
                  @ (if Some ''test dev content'' \<noteq> Some ''test dev content''
                     then [FileAddition (devLockFileNameOf ?C ?ua) (Some ''test dev content'')]
                     else [])))"
    using inst h5 h6 h7 by blast
  then have res: "fst (updateArtifacts ?C ?ua sampleProject ?s)
               = Inr (Some [FileAddition ''requirements.lock'' (Some ''new lock'')])"
    by (simp add: sample_run_defs)
  have g1: "readLocalFile ?C (lockFileNameOf ?C ?ub) (world ?s) = (Inr None, devLockFileOnly)"
    by (simp add: sample_run_defs)
  have g2: "readLocalFile ?C (devLockFileNameOf ?C ?ub) devLockFileOnly
              = (Inr (Some ''test dev content''), devLockFileOnly)"
    by (simp add: sample_run_defs)
  have g4: "commandSet (depTypes ?C) ?ub = Inl undefinedSplitError"
    by (simp add: sample_run_defs generateCMDs_eq sample_defs)
  have g5: "message undefinedSplitError \<noteq> TEMPORARY_ERROR ?C"
    by (simp add: sample_run_defs undefinedSplitError_def)
  have "updateArtifacts ?C ?ub sampleProject ?s =
          (if message undefinedSplitError = TEMPORARY_ERROR ?C then Inl undefinedSplitError
           else Inr (Some [ArtifactError (lockFileNameOf ?C ?ub) (message undefinedSplitError),
                           ArtifactError (devLockFileNameOf ?C ?ub) (message undefinedSplitError)]),
           \<lparr>world = devLockFileOnly, execSnapshots = execSnapshots ?s\<rparr>)"
    by (rule one_lock_file_absent_proceeds [OF g1 g2 h3, of sampleProject, unfolded g4 sum.case])
  then have err: "updateArtifacts ?C ?ub sampleProject ?s =
          (Inr (Some [ArtifactError ''requirements.lock'' (message undefinedSplitError),
                      ArtifactError ''requirements-dev.lock'' (message undefinedSplitError)]),
           \<lparr>world = devLockFileOnly, execSnapshots = []\<rparr>)"
    using g5 by (simp add: lockFileNameOf_def devLockFileNameOf_def sampleCollaborators_def
                   sampleArtifact_def)
  show ?thesis
    using log res err by blast
qed

end
